theory Spec2Isabelle
  imports Complex_Main
begin

section \<open>Colour classification (utils.py)\<close>

text \<open>
  Python floats are modelled as \<^typ>\<open>real\<close>: every finite float is a rational number,
  and \<open>abs\<close>, \<open><\<close> and \<open><=\<close> against the integer thresholds are exact on floats.
  NaN is outside the model.
\<close>

datatype error = IndexError | TypeError

definition COLORS_D :: "string list" where
  "COLORS_D = [''#86B6F2'', ''#4389E3'', ''#1666CB'', ''#0645B4'', ''#002B84'']"

definition COLORS_R :: "string list" where
  "COLORS_R = [''#E27F90'', ''#CC2F4A'', ''#D40000'', ''#AA0000'', ''#800000'']"

definition COLOR_GREY :: string where
  "COLOR_GREY = ''#D6D6D6''"

definition THRESH_MARGIN :: "real list" where
  "THRESH_MARGIN = [50, 60, 70, 80, 90, 100]"

text \<open>\<open>colors[i]\<close> for an index \<open>i >= 0\<close>: IndexError past the end.\<close>

definition index :: "'a list \<Rightarrow> nat \<Rightarrow> error + 'a" where
  "index xs i = (if i < length xs then Inr (xs ! i) else Inl IndexError)"

text \<open>
  The \<open>for\<close> loop of \<open>get_color\<close> over \<open>enumerate(zip(thresh, thresh[1:]))\<close>:
  \<open>None\<close> when no pair matched, otherwise the outcome of \<open>return colors[i]\<close>
  at the first pair that did.
\<close>

fun scan_bands :: "real \<Rightarrow> string list \<Rightarrow> nat \<Rightarrow> (real \<times> real) list \<Rightarrow> (error + string) option" where
  "scan_bands v colors i [] = None"
| "scan_bands v colors i ((left, right) # ps) =
     (if left < \<bar>v\<bar> \<and> \<bar>v\<bar> \<le> right then Some (index colors i)
      else scan_bands v colors (Suc i) ps)"

text \<open>
  \<open>get_color(value, thresh)\<close>. The result \<open>Inr None\<close> is Python's \<open>None\<close>, returned
  when the function body ends without a \<open>return\<close>. \<open>thresh[-1]\<close> raises IndexError on
  an empty list; \<open>colors[-1]\<close> is the last of five colours.
\<close>

definition get_color :: "real \<Rightarrow> real list \<Rightarrow> error + string option" where
  "get_color v thresh =
     (let colors = (if v < 0 then COLORS_D else COLORS_R) in
      case scan_bands v colors 0 (zip thresh (tl thresh)) of
        Some (Inl e) \<Rightarrow> Inl e
      | Some (Inr c) \<Rightarrow> Inr (Some c)
      | None \<Rightarrow>
          (if thresh = [] then Inl IndexError
           else if v > last thresh then Inr (Some (last colors))
           else Inr None))"

text \<open>\<open>grey_out(name, color, colored_name, color_grey)\<close>.\<close>

definition grey_out :: "string \<Rightarrow> 'a \<Rightarrow> string \<Rightarrow> 'a \<Rightarrow> 'a" where
  "grey_out name color colored_name color_grey =
     (if name = colored_name then color else color_grey)"

section \<open>Tables (parsing.py)\<close>

text \<open>
  Modelled from the spec: the schema of the input table \<open>tx-data.xlsx\<close>, which is not in
  the source. A row has the columns \<open>unit\<close>, \<open>state\<close>, \<open>is_state\<close> (0 or 1), \<open>code\<close> and
  one margin column for each of the six election years 2000, 2004, ..., 2020; the year
  columns are the last six columns of a row. The source agrees with it: it reads the
  columns \<open>unit\<close>, \<open>state\<close>, \<open>is_state\<close>, \<open>code\<close> and \<open>f"{year}"\<close> by name and takes the
  last six entries of a row as the margins.

  A pandas DataFrame is a list of rows, in table order. A year column holds floats in the
  input; \<open>get_data\<close> overwrites it, one column at a time, with colour strings and \<open>None\<close>,
  so the cells of the table it works on are dynamically typed.
\<close>

datatype year = Y2000 | Y2004 | Y2008 | Y2012 | Y2016 | Y2020

text \<open>\<open>YEARS = [i for i in range(2000, 2024, 4)]\<close>, each year naming its column.\<close>

definition YEARS :: "year list" where
  "YEARS = [Y2000, Y2004, Y2008, Y2012, Y2016, Y2020]"

datatype 'a years = Years 'a 'a 'a 'a 'a 'a

fun years_list :: "'a years \<Rightarrow> 'a list" where
  "years_list (Years a b c d e f) = [a, b, c, d, e, f]"

fun get_col :: "year \<Rightarrow> 'a years \<Rightarrow> 'a" where
  "get_col Y2000 (Years a b c d e f) = a"
| "get_col Y2004 (Years a b c d e f) = b"
| "get_col Y2008 (Years a b c d e f) = c"
| "get_col Y2012 (Years a b c d e f) = d"
| "get_col Y2016 (Years a b c d e f) = e"
| "get_col Y2020 (Years a b c d e f) = f"

fun set_col :: "year \<Rightarrow> 'a \<Rightarrow> 'a years \<Rightarrow> 'a years" where
  "set_col Y2000 x (Years a b c d e f) = Years x b c d e f"
| "set_col Y2004 x (Years a b c d e f) = Years a x c d e f"
| "set_col Y2008 x (Years a b c d e f) = Years a b x d e f"
| "set_col Y2012 x (Years a b c d e f) = Years a b c x e f"
| "set_col Y2016 x (Years a b c d e f) = Years a b c d x f"
| "set_col Y2020 x (Years a b c d e f) = Years a b c d e x"

record 'a row =
  unit :: string
  state :: string
  is_state :: int
  code :: string
  years :: "'a years"

datatype cell = Float real | Str string | NoneVal

text \<open>A table of floats seen as a table of dynamically typed cells.\<close>

definition cells :: "real row \<Rightarrow> cell row" where
  "cells r = \<lparr>unit = unit r, state = state r, is_state = is_state r, code = code r,
              years = map_years Float (years r)\<rparr>"

text \<open>
  Boolean indexing \<open>data[keep]\<close>: the rows whose entry in \<open>keep\<close> is true, in table order, as a
  new table.
\<close>

definition select :: "'a list \<Rightarrow> bool list \<Rightarrow> 'a list" where
  "select data keep = map fst (filter snd (zip data keep))"

text \<open>
  \<open>((data["state"] == state) | (data["is_state"] == 1)) & (data["unit"] != state)\<close>,
  computed column by column as pandas does.
\<close>

definition conditions :: "'a row list \<Rightarrow> string \<Rightarrow> bool list" where
  "conditions data s =
     map2 (\<and>)
       (map2 (\<or>) (map (\<lambda>r. state r = s) data) (map (\<lambda>r. is_state r = 1) data))
       (map (\<lambda>r. unit r \<noteq> s) data)"

text \<open>
  \<open>lambda x: utils.get_color(x, THRESH_MARGIN)\<close> on a cell. On a string or \<open>None\<close> the
  comparison \<open>value < 0\<close> raises TypeError.
\<close>

fun get_color_cell :: "cell \<Rightarrow> error + cell" where
  "get_color_cell (Float v) =
     (case get_color v THRESH_MARGIN of
        Inl e \<Rightarrow> Inl e
      | Inr None \<Rightarrow> Inr NoneVal
      | Inr (Some c) \<Rightarrow> Inr (Str c))"
| "get_color_cell (Str s) = Inl TypeError"
| "get_color_cell NoneVal = Inl TypeError"

text \<open>\<open>Series.apply\<close>: the function on each element in order; the first exception ends it.\<close>

fun apply_series :: "('a \<Rightarrow> error + 'b) \<Rightarrow> 'a list \<Rightarrow> error + 'b list" where
  "apply_series f [] = Inr []"
| "apply_series f (x # xs) =
     (case f x of
        Inl e \<Rightarrow> Inl e
      | Inr y \<Rightarrow> (case apply_series f xs of Inl e \<Rightarrow> Inl e | Inr ys \<Rightarrow> Inr (y # ys)))"

text \<open>\<open>state_data[f"{year}"]\<close> and \<open>state_data[f"{year}"] = column\<close>.\<close>

definition column :: "year \<Rightarrow> 'a row list \<Rightarrow> 'a list" where
  "column y t = map (\<lambda>r. get_col y (years r)) t"

definition assign :: "year \<Rightarrow> 'a list \<Rightarrow> 'a row list \<Rightarrow> 'a row list" where
  "assign y col t = map2 (\<lambda>r x. r\<lparr>years := set_col y x (years r)\<rparr>) t col"

text \<open>
  \<open>state_data.apply(lambda x: utils.grey_out(x["state"], x[f"{year}"], state), axis = 1)\<close>;
  the grey is the default argument \<open>COLOR_GREY\<close>.
\<close>

definition grey_column :: "year \<Rightarrow> string \<Rightarrow> cell row list \<Rightarrow> cell list" where
  "grey_column y s t = map (\<lambda>x. grey_out (state x) (get_col y (years x)) s (Str COLOR_GREY)) t"

text \<open>The body of the loop \<open>for year in YEARS\<close> of \<open>get_data\<close>, on the table \<open>state_data\<close>.\<close>

definition color_year :: "year \<Rightarrow> string \<Rightarrow> cell row list \<Rightarrow> error + cell row list" where
  "color_year y s state_data =
     (case apply_series get_color_cell (column y state_data) of
        Inl e \<Rightarrow> Inl e
      | Inr data_year \<Rightarrow>
          (let t1 = assign y data_year state_data
           in Inr (assign y (grey_column y s t1) t1)))"

fun color_years :: "year list \<Rightarrow> string \<Rightarrow> cell row list \<Rightarrow> error + cell row list" where
  "color_years [] s state_data = Inr state_data"
| "color_years (y # ys) s state_data =
     (case color_year y s state_data of
        Inl e \<Rightarrow> Inl e
      | Inr t \<Rightarrow> color_years ys s t)"

text \<open>\<open>get_data(data, state)\<close>, as a function from the input table to the returned table.\<close>

definition get_data :: "real row list \<Rightarrow> string \<Rightarrow> error + cell row list" where
  "get_data data s = color_years YEARS s (map cells (select data (conditions data s)))"

subsection \<open>Float arithmetic\<close>

text \<open>
  Python's \<open>float\<close> is IEEE 754 binary64. A finite float is a real number, and the result
  of \<open>+\<close> or \<open>-\<close> on floats is the exact result rounded to the nearest number with a
  53-bit significand, ties going to the even significand: \<open>fl\<close>. The exponent range is
  not modelled: \<open>100 + i\<close> and \<open>100 - i\<close> cannot overflow for a float \<open>i\<close>, and a sum of two
  floats that lies in the subnormal range is exact. Comparisons and \<open>abs\<close> are exact.
\<close>

definition rne :: "real \<Rightarrow> int" where
  "rne q =
     (let n = \<lfloor>q\<rfloor>; d = q - of_int n
      in if d < 1 / 2 then n else if 1 / 2 < d then n + 1 else if even n then n else n + 1)"

definition fl :: "real \<Rightarrow> real" where
  "fl x =
     (if x = 0 then 0
      else let e = \<lfloor>log 2 \<bar>x\<bar>\<rfloor> - 52
           in of_int (rne (x / 2 powr of_int e)) * 2 powr of_int e)"

subsection \<open>The result series\<close>

text \<open>
  \<open>get_results(data, state)\<close>. \<open>iloc[0]\<close> raises IndexError on an empty selection.
  \<open>results[-6:]\<close> are the six year columns of the row, and \<open>float(i)\<close> leaves a float as it
  is. \<open>d_results\<close> and \<open>r_results\<close> are the two list comprehensions.
\<close>

definition d_results :: "real list \<Rightarrow> real list" where
  "d_results results = map (\<lambda>i. if i < 0 then \<bar>i\<bar> else fl (100 - i)) results"

definition r_results :: "real list \<Rightarrow> real list" where
  "r_results results = map (\<lambda>i. if i < 0 then fl (100 + i) else i) results"

definition get_results :: "real row list \<Rightarrow> string \<Rightarrow> error + real list list" where
  "get_results data s =
     (case select data (map (\<lambda>r. unit r = s) data) of
        [] \<Rightarrow> Inl IndexError
      | r # _ \<Rightarrow>
          (let results = years_list (years r)
           in Inr [d_results results, r_results results]))"

subsection \<open>Tables as objects\<close>

text \<open>
  To say that \<open>get_data\<close> leaves its argument alone, tables are objects in a store and a
  DataFrame variable is a reference into it. Boolean indexing makes a new object (pandas
  copies the selected rows); column assignment changes the object it is applied to. An
  exception leaves the store as it was when it was raised.
\<close>

type_synonym store = "cell row list list"

definition assign_st :: "nat \<Rightarrow> year \<Rightarrow> cell list \<Rightarrow> store \<Rightarrow> store" where
  "assign_st p y col h = h[p := assign y col (h ! p)]"

fun color_years_st :: "year list \<Rightarrow> string \<Rightarrow> nat \<Rightarrow> store \<Rightarrow> error option \<times> store" where
  "color_years_st [] s p h = (None, h)"
| "color_years_st (y # ys) s p h =
     (case apply_series get_color_cell (column y (h ! p)) of
        Inl e \<Rightarrow> (Some e, h)
      | Inr data_year \<Rightarrow>
          (let h1 = assign_st p y data_year h;
               h2 = assign_st p y (grey_column y s (h1 ! p)) h1
           in color_years_st ys s p h2))"

definition get_data_st :: "store \<Rightarrow> nat \<Rightarrow> string \<Rightarrow> (error + nat) \<times> store" where
  "get_data_st h data s =
     (let state_data = length h;
          h0 = h @ [select (h ! data) (conditions (h ! data) s)]
      in case color_years_st YEARS s state_data h0 of
           (Some e, h') \<Rightarrow> (Inl e, h')
         | (None, h') \<Rightarrow> (Inr state_data, h'))"

subsection \<open>The loop of \<open>get_data\<close>, row by row\<close>

text \<open>
  What one pass of the loop body, and the whole loop, do to a single row. These are not
  in the source: the loop is shown to compute them.
\<close>

definition paint :: "year \<Rightarrow> string \<Rightarrow> cell row \<Rightarrow> cell row" where
  "paint y s r =
     (case get_color_cell (get_col y (years r)) of
        Inl e \<Rightarrow> r
      | Inr c \<Rightarrow> r\<lparr>years := set_col y (grey_out (state r) c s (Str COLOR_GREY)) (years r)\<rparr>)"

fun paint_years :: "year list \<Rightarrow> string \<Rightarrow> cell row \<Rightarrow> cell row" where
  "paint_years [] s r = r"
| "paint_years (y # ys) s r = paint_years ys s (paint y s r)"

definition is_float :: "cell \<Rightarrow> bool" where
  "is_float c = (case c of Float v \<Rightarrow> True | _ \<Rightarrow> False)"

section \<open>Rounding\<close>

text \<open>
  The rounding error is at most half a unit in the last place, and \<open>fl\<close> can be evaluated
  once the binade of its argument is known.
\<close>

lemma rne_error: "\<bar>of_int (rne q) - q\<bar> \<le> 1 / 2"
  unfolding rne_def Let_def by (auto simp: abs_if) linarith+

lemma floor_log2: 
  assumes "2 ^ n \<le> y" "y < 2 ^ Suc n"
  shows "\<lfloor>log 2 y\<rfloor> = int n"
proof -
  have y: "0 < y" using assms(1) by (smt (verit) zero_less_power)
  have "real n \<le> log 2 y"
    using assms(1) y by (simp add: le_log_iff powr_realpow)
  moreover have "log 2 y < real (Suc n)"
  proof -
    have "2 powr real (Suc n) = (2::real) ^ Suc n" by (rule powr_realpow) simp
    with assms(2) have "y < 2 powr real (Suc n)" by simp
    with y show ?thesis by (subst log_less_iff) simp_all
  qed
  ultimately show ?thesis by (simp add: floor_eq_iff)
qed

lemma fl_eval:
  assumes "2 ^ n \<le> \<bar>x\<bar>" "\<bar>x\<bar> < 2 ^ Suc n" "n \<le> 52"
  shows "fl x = of_int (rne (x * 2 ^ (52 - n))) / 2 ^ (52 - n)"
proof -
  have x: "x \<noteq> 0" using assms(1) by (smt (verit) zero_less_power abs_zero)
  have e: "\<lfloor>log 2 \<bar>x\<bar>\<rfloor> - 52 = - int (52 - n)"
    using floor_log2 [OF assms(1,2)] assms(3) by simp
  have p: "(2::real) powr of_int (- int (52 - n)) = 1 / 2 ^ (52 - n)"
    by (simp add: powr_minus powr_realpow inverse_eq_divide)
  show ?thesis using x by (simp add: fl_def e p Let_def del: of_int_minus)
qed

lemma fl_eval_big:
  assumes "2 ^ n \<le> \<bar>x\<bar>" "\<bar>x\<bar> < 2 ^ Suc n" "52 \<le> n"
  shows "fl x = of_int (rne (x / 2 ^ (n - 52))) * 2 ^ (n - 52)"
proof -
  have x: "x \<noteq> 0" using assms(1) by (smt (verit) zero_less_power abs_zero)
  have e: "\<lfloor>log 2 \<bar>x\<bar>\<rfloor> - 52 = int (n - 52)"
    using floor_log2 [OF assms(1,2)] assms(3) by simp
  have p: "(2::real) powr real (n - 52) = 2 ^ (n - 52)"
    by (simp add: powr_realpow)
  show ?thesis using x by (simp add: fl_def e p Let_def)
qed

lemma fl_error: "\<bar>fl x - x\<bar> \<le> \<bar>x\<bar> / 2 ^ 53"
proof (cases "x = 0")
  case True
  then show ?thesis by (simp add: fl_def)
next
  case False
  define e where "e = \<lfloor>log 2 \<bar>x\<bar>\<rfloor> - 52"
  define u :: real where "u = 2 powr of_int e"
  have u: "0 < u" by (simp add: u_def)
  have "fl x = of_int (rne (x / u)) * u" using False by (simp add: fl_def e_def u_def Let_def)
  then have "fl x - x = (of_int (rne (x / u)) - x / u) * u" using u by (simp add: field_simps)
  then have "\<bar>fl x - x\<bar> = \<bar>of_int (rne (x / u)) - x / u\<bar> * u" using u by (simp add: abs_mult)
  also have "\<dots> \<le> (1 / 2) * u" using rne_error [of "x / u"] u by (intro mult_right_mono) simp_all
  also have "\<dots> \<le> \<bar>x\<bar> / 2 ^ 53"
  proof -
    have "of_int \<lfloor>log 2 \<bar>x\<bar>\<rfloor> \<le> log 2 \<bar>x\<bar>" by simp
    then have "2 powr of_int \<lfloor>log 2 \<bar>x\<bar>\<rfloor> \<le> 2 powr log 2 \<bar>x\<bar>" by (simp del: of_int_floor_le)
    also have "\<dots> = \<bar>x\<bar>" using False by simp
    finally have a: "2 powr of_int \<lfloor>log 2 \<bar>x\<bar>\<rfloor> \<le> \<bar>x\<bar>" .
    have "u = 2 powr of_int \<lfloor>log 2 \<bar>x\<bar>\<rfloor> / 2 ^ 52"
      by (simp add: u_def e_def powr_diff) 
    with a show ?thesis by (simp add: field_simps)
  qed
  finally show ?thesis .
qed

lemma fl_binade5: "32 \<le> \<bar>x\<bar> \<Longrightarrow> \<bar>x\<bar> < 64 \<Longrightarrow> fl x = of_int (rne (x * 2 ^ 47)) / 2 ^ 47"
  using fl_eval [of 5 x] by simp

lemma fl_binade6: "64 \<le> \<bar>x\<bar> \<Longrightarrow> \<bar>x\<bar> < 128 \<Longrightarrow> fl x = of_int (rne (x * 2 ^ 46)) / 2 ^ 46"
  using fl_eval [of 6 x] by simp

lemma fl_1e17: "fl 100000000000000000 = 100000000000000000"
  by (subst fl_eval_big [where n = 56]) (simp_all add: rne_def)

lemma fl_100_minus_1e17: "fl (- 99999999999999900) = - 99999999999999904"
  by (subst fl_eval_big [where n = 56]) (simp_all add: rne_def)

lemma fl_96: "fl 96 = 96"
  by (subst fl_eval [where n = 6]) (simp_all add: rne_def)

section \<open>Properties of the classifier\<close>

lemma get_color_default:
  "get_color v THRESH_MARGIN =
     (let colors = (if v < 0 then COLORS_D else COLORS_R) in
      if 50 < \<bar>v\<bar> \<and> \<bar>v\<bar> \<le> 60 then Inr (Some (colors ! 0))
      else if 60 < \<bar>v\<bar> \<and> \<bar>v\<bar> \<le> 70 then Inr (Some (colors ! 1))
      else if 70 < \<bar>v\<bar> \<and> \<bar>v\<bar> \<le> 80 then Inr (Some (colors ! 2))
      else if 80 < \<bar>v\<bar> \<and> \<bar>v\<bar> \<le> 90 then Inr (Some (colors ! 3))
      else if 90 < \<bar>v\<bar> \<and> \<bar>v\<bar> \<le> 100 then Inr (Some (colors ! 4))
      else if v > 100 then Inr (Some (colors ! 4))
      else Inr None)"
  by (simp add: get_color_def THRESH_MARGIN_def index_def COLORS_D_def COLORS_R_def Let_def)

text \<open>
  C1. For every value \<open>v\<close> with \<open>50 < |v| <= 100\<close> and the default threshold table,
  \<open>get_color\<close> returns a ramp colour: the colour at the index \<open>i\<close> of the band
  \<open>thresh[i] < |v| <= thresh[i+1]\<close>, taken from \<open>COLORS_D\<close> when \<open>v\<close> is negative and
  from \<open>COLORS_R\<close> when it is positive. The ten ramp colours are pairwise different, so
  the colour also tells the side.
\<close>

theorem get_color_band_total:
  assumes "50 < \<bar>v\<bar>" and "\<bar>v\<bar> \<le> 100"
  shows "\<exists>i<5. THRESH_MARGIN ! i < \<bar>v\<bar> \<and> \<bar>v\<bar> \<le> THRESH_MARGIN ! Suc i \<and>
           get_color v THRESH_MARGIN = Inr (Some ((if v < 0 then COLORS_D else COLORS_R) ! i)) \<and>
           (if v < 0 then COLORS_D else COLORS_R) ! i \<in> set (if v < 0 then COLORS_D else COLORS_R) \<and>
           (if v < 0 then COLORS_D else COLORS_R) ! i \<notin> set (if v < 0 then COLORS_R else COLORS_D)"
proof -
  consider (b0) "\<bar>v\<bar> \<le> 60" | (b1) "60 < \<bar>v\<bar>" "\<bar>v\<bar> \<le> 70" | (b2) "70 < \<bar>v\<bar>" "\<bar>v\<bar> \<le> 80"
    | (b3) "80 < \<bar>v\<bar>" "\<bar>v\<bar> \<le> 90" | (b4) "90 < \<bar>v\<bar>"
    by linarith
  then show ?thesis
  proof cases
    case b0
    with assms show ?thesis
      unfolding get_color_default
      by (intro exI [of _ 0]) (simp add: THRESH_MARGIN_def COLORS_D_def COLORS_R_def)
  next
    case b1
    with assms show ?thesis
      unfolding get_color_default
      by (intro exI [of _ 1]) (simp add: THRESH_MARGIN_def COLORS_D_def COLORS_R_def)
  next
    case b2
    with assms show ?thesis
      unfolding get_color_default
      by (intro exI [of _ 2]) (simp add: THRESH_MARGIN_def COLORS_D_def COLORS_R_def)
  next
    case b3
    with assms show ?thesis
      unfolding get_color_default
      by (intro exI [of _ 3]) (simp add: THRESH_MARGIN_def COLORS_D_def COLORS_R_def)
  next
    case b4
    with assms show ?thesis
      unfolding get_color_default
      by (intro exI [of _ 4]) (simp add: THRESH_MARGIN_def COLORS_D_def COLORS_R_def)
  qed
qed

theorem get_color_band_total_witness:
  "50 < \<bar>- 65.7 :: real\<bar> \<and> \<bar>- 65.7 :: real\<bar> \<le> 100 \<and>
   (\<exists>i<5. THRESH_MARGIN ! i < \<bar>- 65.7\<bar> \<and> \<bar>- 65.7\<bar> \<le> THRESH_MARGIN ! Suc i \<and>
      get_color (- 65.7) THRESH_MARGIN = Inr (Some (COLORS_D ! i)) \<and>
      COLORS_D ! i \<in> set COLORS_D \<and> COLORS_D ! i \<notin> set COLORS_R)"
  using get_color_band_total [of "- 65.7"] by simp

text \<open>
  C3. Above the last threshold the last ramp colour is returned for positive values only:
  the final test of \<open>get_color\<close> compares \<open>value\<close>, not \<open>abs(value)\<close>, with
  \<open>thresh[-1]\<close>, so a value below \<open>-100\<close> falls through and the result is \<open>None\<close>.
\<close>

theorem get_color_beyond_last_threshold:
  "get_color 150 THRESH_MARGIN = Inr (Some (last COLORS_R)) \<and>
   get_color (- 150) THRESH_MARGIN = Inr None \<and>
   get_color (- 150) THRESH_MARGIN \<noteq> Inr (Some (last COLORS_D))"
  by (simp add: get_color_default COLORS_R_def)

text \<open>
  C5. Band edges are exclusive below and inclusive above: 60 is in band 0 and 60.01 in
  band 1, on either side, so the two values get different colours. The same holds for the
  float that the literal \<open>60.01\<close> denotes.
\<close>

theorem get_color_band_edge:
  "get_color 60 THRESH_MARGIN = Inr (Some (COLORS_R ! 0)) \<and>
   get_color 60.01 THRESH_MARGIN = Inr (Some (COLORS_R ! 1)) \<and>
   get_color (- 60) THRESH_MARGIN = Inr (Some (COLORS_D ! 0)) \<and>
   get_color (- 60.01) THRESH_MARGIN = Inr (Some (COLORS_D ! 1)) \<and>
   get_color (fl 60.01) THRESH_MARGIN = Inr (Some (COLORS_R ! 1)) \<and>
   get_color 60 THRESH_MARGIN \<noteq> get_color 60.01 THRESH_MARGIN \<and>
   get_color (- 60) THRESH_MARGIN \<noteq> get_color (- 60.01) THRESH_MARGIN"
  by (simp add: fl_binade5 rne_def get_color_default COLORS_D_def COLORS_R_def)

text \<open>
  C6. For every value \<open>v\<close> with \<open>|v| <= 50\<close>, \<open>get_color\<close> matches no band and returns
  \<open>None\<close>: neither a ramp colour nor the grey.
\<close>

theorem get_color_below_first_threshold:
  "\<bar>v\<bar> \<le> 50 \<Longrightarrow> get_color v THRESH_MARGIN = Inr None"
  by (simp add: get_color_default)

theorem get_color_below_first_threshold_witness:
  "\<bar>- 50 :: real\<bar> \<le> 50 \<and> get_color (- 50) THRESH_MARGIN = Inr None"
  using get_color_below_first_threshold [of "- 50"] by simp

text \<open>
  C7. \<open>grey_out\<close> returns the given colour when the owning state is the target state and
  the grey otherwise.
\<close>

theorem grey_out_highlight:
  "grey_out name color name COLOR_GREY = color \<and>
   (other \<noteq> name \<longrightarrow> grey_out name color other COLOR_GREY = COLOR_GREY)"
  by (simp add: grey_out_def)

theorem grey_out_highlight_witness:
  "grey_out ''Trinity'' ''#CC2F4A'' ''Trinity'' COLOR_GREY = ''#CC2F4A'' \<and>
   ''Gulfland'' \<noteq> ''Trinity'' \<and>
   grey_out ''Trinity'' ''#CC2F4A'' ''Gulfland'' COLOR_GREY = ''#D6D6D6''"
  using grey_out_highlight [of "''Trinity''" "''#CC2F4A''" "''Gulfland''"]
  by (simp add: COLOR_GREY_def)

section \<open>Properties of the state filter\<close>

lemma select_map: "select data (map P data) = filter P data"
  unfolding select_def by (induction data) auto

lemma conditions_eq:
  "conditions data s = map (\<lambda>r. (state r = s \<or> is_state r = 1) \<and> unit r \<noteq> s) data"
  unfolding conditions_def by (induction data) auto

lemma get_col_set_col: "get_col y (set_col y x ys) = x"
  by (cases y; cases ys) simp_all

lemma get_col_set_col_other: "y' \<noteq> y \<Longrightarrow> get_col y' (set_col y x ys) = get_col y' ys"
  by (cases y; cases y'; cases ys) simp_all

lemma set_col_set_col: "set_col y x (set_col y x' ys) = set_col y x ys"
  by (cases y; cases ys) simp_all

lemma get_col_map_years: "get_col y (map_years f ys) = f (get_col y ys)"
  by (cases y; cases ys) simp_all

lemma get_color_cell_Float: "\<exists>c. get_color_cell (Float v) = Inr c"
  by (simp add: get_color_default Let_def)

lemma get_color_cell_is_float: "is_float c \<Longrightarrow> \<exists>c'. get_color_cell c = Inr c'"
  using get_color_cell_Float by (cases c) (auto simp: is_float_def)

lemma apply_series_map:
  "\<forall>x\<in>set xs. \<exists>y. f (g x) = Inr y \<Longrightarrow>
   apply_series f (map g xs) = Inr (map (\<lambda>x. projr (f (g x))) xs)"
  by (induction xs) auto

lemma map2_same: "map2 h t (map g t) = map (\<lambda>r. h r (g r)) t"
  by (induction t) auto

lemma color_year_paint:
  assumes "\<forall>r\<in>set t. is_float (get_col y (years r))"
  shows "color_year y s t = Inr (map (paint y s) t)"
proof -
  have ok: "\<forall>r\<in>set t. \<exists>c. get_color_cell (get_col y (years r)) = Inr c"
    using assms get_color_cell_is_float by blast
  have a: "apply_series get_color_cell (column y t) =
      Inr (map (\<lambda>r. projr (get_color_cell (get_col y (years r)))) t)"
    unfolding column_def using ok by (rule apply_series_map)
  have b: "paint y s r =
      r\<lparr>years := set_col y (grey_out (state r) (projr (get_color_cell (get_col y (years r)))) s (Str COLOR_GREY)) (years r)\<rparr>"
    if "r \<in> set t" for r
  proof -
    from ok that obtain c where "get_color_cell (get_col y (years r)) = Inr c" by blast
    then show ?thesis by (simp add: paint_def)
  qed
  show ?thesis
    unfolding color_year_def a
    by (simp add: assign_def grey_column_def map2_same Let_def get_col_set_col set_col_set_col b
        cong: map_cong)
qed

lemma paint_fields [simp]:
  "unit (paint y s r) = unit r" "state (paint y s r) = state r"
  "is_state (paint y s r) = is_state r" "code (paint y s r) = code r"
  by (simp_all add: paint_def split: sum.splits)

lemma paint_other_col: "y' \<noteq> y \<Longrightarrow> get_col y' (years (paint y s r)) = get_col y' (years r)"
  by (simp add: paint_def get_col_set_col_other split: sum.splits)

lemma paint_years_fields [simp]:
  "unit (paint_years ys s r) = unit r" "state (paint_years ys s r) = state r"
  "is_state (paint_years ys s r) = is_state r" "code (paint_years ys s r) = code r"
  by (induction ys arbitrary: r) simp_all

lemma color_years_paint:
  "distinct ys \<Longrightarrow> \<forall>r\<in>set t. \<forall>y\<in>set ys. is_float (get_col y (years r)) \<Longrightarrow>
   color_years ys s t = Inr (map (paint_years ys s) t)"
proof (induction ys arbitrary: t)
  case Nil
  then show ?case by simp
next
  case (Cons y ys)
  have step: "color_year y s t = Inr (map (paint y s) t)"
    using Cons.prems by (intro color_year_paint) simp
  have "\<forall>r\<in>set (map (paint y s) t). \<forall>y'\<in>set ys. is_float (get_col y' (years r))"
  proof (intro ballI)
    fix r y'
    assume r: "r \<in> set (map (paint y s) t)" and y': "y' \<in> set ys"
    from r obtain r0 where r0: "r0 \<in> set t" and eq: "r = paint y s r0" by auto
    from y' Cons.prems(1) have "y' \<noteq> y" by auto
    then have "get_col y' (years r) = get_col y' (years r0)"
      unfolding eq by (rule paint_other_col)
    with Cons.prems(2) r0 y' show "is_float (get_col y' (years r))" by simp
  qed
  with Cons.IH [of "map (paint y s) t"] Cons.prems(1)
  have "color_years ys s (map (paint y s) t) = Inr (map (paint_years ys s) (map (paint y s) t))"
    by simp
  with step show ?case by (simp add: comp_def)
qed

lemma cells_fields [simp]:
  "unit (cells r) = unit r" "state (cells r) = state r"
  "is_state (cells r) = is_state r" "code (cells r) = code r"
  by (simp_all add: cells_def)

lemma cells_is_float: "is_float (get_col y (years (cells r)))"
  by (simp add: cells_def get_col_map_years is_float_def)

lemma get_data_eq:
  "get_data data s =
     Inr (map (\<lambda>r. paint_years YEARS s (cells r))
            (filter (\<lambda>r. (state r = s \<or> is_state r = 1) \<and> unit r \<noteq> s) data))"
proof -
  have d: "distinct YEARS" by (simp add: YEARS_def)
  show ?thesis
    unfolding get_data_def conditions_eq select_map
    by (subst color_years_paint [OF d]) (simp_all add: cells_is_float comp_def)
qed

text \<open>
  C2. For every table and target state, \<open>get_data\<close> returns a table whose rows are, in
  table order, the rows of the input with (owning state equal to the target or \<open>is_state\<close>
  set) and \<open>unit\<close> different from the target: no row whose \<open>unit\<close> is the target state is in
  the output, and every other row whose \<open>is_state\<close> flag is set is, whatever its owning
  state. Only the year columns of a row are changed.
\<close>

theorem get_data_rows:
  "\<exists>out. get_data data s = Inr out \<and>
     map (\<lambda>r. (unit r, state r, is_state r, code r)) out =
       map (\<lambda>r. (unit r, state r, is_state r, code r))
         (filter (\<lambda>r. (state r = s \<or> is_state r = 1) \<and> unit r \<noteq> s) data) \<and>
     (\<forall>r\<in>set out. unit r \<noteq> s) \<and>
     (\<forall>r\<in>set data. is_state r = 1 \<and> unit r \<noteq> s \<longrightarrow>
        (\<exists>q\<in>set out. unit q = unit r \<and> state q = state r \<and> is_state q = 1 \<and> code q = code r))"
  unfolding get_data_eq by (auto simp: comp_def intro!: bexI)

theorem get_data_rows_witness:
  "(\<exists>r\<in>set [\<lparr>unit = ''a'', state = ''X'', is_state = 0, code = ''1'', years = Years 55 (- 65.7) 10 (- 150) 150 (- 99)\<rparr>,
       \<lparr>unit = ''X'', state = ''X'', is_state = 1, code = ''2'', years = Years 51.3 51.3 51.3 51.3 51.3 51.3\<rparr>,
       \<lparr>unit = ''Y'', state = ''Y'', is_state = 1, code = ''3'', years = Years 70 70 70 70 70 70\<rparr>,
       \<lparr>unit = ''b'', state = ''Y'', is_state = 0, code = ''4'', years = Years 1 2 3 4 5 6\<rparr>].
      is_state r = 1 \<and> unit r \<noteq> ''X'') \<and>
   (\<exists>out. get_data
      [\<lparr>unit = ''a'', state = ''X'', is_state = 0, code = ''1'', years = Years 55 (- 65.7) 10 (- 150) 150 (- 99)\<rparr>,
       \<lparr>unit = ''X'', state = ''X'', is_state = 1, code = ''2'', years = Years 51.3 51.3 51.3 51.3 51.3 51.3\<rparr>,
       \<lparr>unit = ''Y'', state = ''Y'', is_state = 1, code = ''3'', years = Years 70 70 70 70 70 70\<rparr>,
       \<lparr>unit = ''b'', state = ''Y'', is_state = 0, code = ''4'', years = Years 1 2 3 4 5 6\<rparr>] ''X'' = Inr out \<and>
      map (\<lambda>r. (unit r, state r, is_state r, code r)) out = [(''a'', ''X'', 0, ''1''), (''Y'', ''Y'', 1, ''3'')] \<and>
      ''X'' \<notin> set (map unit out))"
  using get_data_rows [of
      "[\<lparr>unit = ''a'', state = ''X'', is_state = 0, code = ''1'', years = Years 55 (- 65.7) 10 (- 150) 150 (- 99)\<rparr>,
       \<lparr>unit = ''X'', state = ''X'', is_state = 1, code = ''2'', years = Years 51.3 51.3 51.3 51.3 51.3 51.3\<rparr>,
       \<lparr>unit = ''Y'', state = ''Y'', is_state = 1, code = ''3'', years = Years 70 70 70 70 70 70\<rparr>,
       \<lparr>unit = ''b'', state = ''Y'', is_state = 0, code = ''4'', years = Years 1 2 3 4 5 6\<rparr>]" "''X''"]
  by auto

section \<open>The state filter leaves its argument alone\<close>

lemma assign_st_frame:
  "length (assign_st p y col h) = length h" "q \<noteq> p \<Longrightarrow> assign_st p y col h ! q = h ! q"
  by (simp_all add: assign_st_def)

lemma color_years_st_frame:
  "color_years_st ys s p h = (res, h') \<Longrightarrow> length h' = length h \<and> (\<forall>q. q \<noteq> p \<longrightarrow> h' ! q = h ! q)"
proof (induction ys arbitrary: h)
  case Nil
  then show ?case by simp
next
  case (Cons y ys)
  show ?case
  proof (cases "apply_series get_color_cell (column y (h ! p))")
    case (Inl e)
    with Cons.prems show ?thesis by simp
  next
    case (Inr data_year)
    define h2 where "h2 = assign_st p y (grey_column y s (assign_st p y data_year h ! p)) (assign_st p y data_year h)"
    from Cons.prems Inr have "color_years_st ys s p h2 = (res, h')"
      by (simp add: h2_def Let_def)
    from Cons.IH [OF this] show ?thesis
      by (simp add: h2_def assign_st_frame)
  qed
qed

lemma color_years_st_value:
  "p < length h \<Longrightarrow> color_years_st ys s p h = (res, h') \<Longrightarrow>
   (case color_years ys s (h ! p) of Inl e \<Rightarrow> res = Some e | Inr t \<Rightarrow> res = None \<and> h' ! p = t)"
proof (induction ys arbitrary: h)
  case Nil
  then show ?case by simp
next
  case (Cons y ys)
  show ?case
  proof (cases "apply_series get_color_cell (column y (h ! p))")
    case (Inl e)
    with Cons.prems show ?thesis by (simp add: color_year_def)
  next
    case (Inr data_year)
    define h2 where "h2 = assign_st p y (grey_column y s (assign_st p y data_year h ! p)) (assign_st p y data_year h)"
    have p2: "p < length h2" using Cons.prems(1) by (simp add: h2_def assign_st_frame)
    have run: "color_years_st ys s p h2 = (res, h')"
      using Cons.prems Inr by (simp add: h2_def Let_def)
    have obj: "h2 ! p = assign y (grey_column y s (assign y data_year (h ! p))) (assign y data_year (h ! p))"
      using Cons.prems(1) by (simp add: h2_def assign_st_def)
    have "color_year y s (h ! p) = Inr (h2 ! p)"
      using Inr by (simp add: color_year_def obj Let_def)
    with Cons.IH [OF p2 run] show ?thesis by simp
  qed
qed

lemma select_cells:
  "select (map cells data) (conditions (map cells data) s) =
     map cells (select data (conditions data s))"
  unfolding conditions_eq select_def by (induction data) simp_all

text \<open>
  The two views of \<open>get_data\<close> agree: on the object of a table of floats, the call returns
  a new reference to the table that \<open>get_data\<close> computes, and nothing else changes.
\<close>

lemma get_data_st_get_data:
  assumes "d < length h" and "h ! d = map cells data" and "get_data data s = Inr out"
  shows "get_data_st h d s = (Inr (length h), h @ [out])"
proof -
  define t0 where "t0 = select (h ! d) (conditions (h ! d) s)"
  define h0 where "h0 = h @ [t0]"
  obtain r1 h' where run: "color_years_st YEARS s (length h) h0 = (r1, h')"
    by (cases "color_years_st YEARS s (length h) h0")
  have "color_years YEARS s t0 = Inr out"
    using assms(2,3) by (simp add: t0_def get_data_def select_cells)
  moreover have "length h < length h0" "h0 ! length h = t0" by (simp_all add: h0_def)
  ultimately have r1: "r1 = None" and new: "h' ! length h = out"
    using color_years_st_value [OF _ run] by simp_all
  from color_years_st_frame [OF run]
  have len: "length h' = length h0" and same: "\<And>q. q \<noteq> length h \<Longrightarrow> h' ! q = h0 ! q"
    by simp_all
  have "h' = h @ [out]"
  proof (rule nth_equalityI)
    show "length h' = length (h @ [out])" by (simp add: len h0_def)
  next
    fix i assume "i < length h'"
    then have "i < length h \<or> i = length h" by (auto simp: len h0_def)
    then show "h' ! i = (h @ [out]) ! i"
      using same [of i] new by (auto simp: h0_def nth_append)
  qed
  with run r1 show ?thesis
    by (simp add: get_data_st_def h0_def t0_def Let_def)
qed

text \<open>
  C9. \<open>get_data\<close> returns a new table and does not change its input: after the call every
  table that was in the store is as before, the input among them; the reference
  returned is a new one, and the table it names is the coloured selection. This holds
  also when the function raises.
\<close>

theorem get_data_st_frame:
  assumes "d < length h" and "get_data_st h d s = (res, h')"
  shows "take (length h) h' = h \<and> h' ! d = h ! d \<and>
         (\<forall>p. res = Inr p \<longrightarrow> p \<noteq> d \<and> p = length h \<and> p < length h' \<and>
            color_years YEARS s (select (h ! d) (conditions (h ! d) s)) = Inr (h' ! p))"
proof -
  define h0 where "h0 = h @ [select (h ! d) (conditions (h ! d) s)]"
  obtain r1 where run: "color_years_st YEARS s (length h) h0 = (r1, h')"
    and res: "res = (case r1 of Some e \<Rightarrow> Inl e | None \<Rightarrow> Inr (length h))"
    using assms(2) by (auto simp: get_data_st_def h0_def Let_def split: prod.splits option.splits)
  from color_years_st_frame [OF run]
  have len: "length h' = length h0" and same: "\<And>q. q \<noteq> length h \<Longrightarrow> h' ! q = h0 ! q"
    by simp_all
  have old: "h' ! q = h ! q" if "q < length h" for q
    using that same [of q] by (simp add: h0_def nth_append)
  have "take (length h) h' = h"
    by (rule nth_equalityI) (simp_all add: len h0_def old)
  moreover have "h' ! d = h ! d" using assms(1) by (rule old)
  moreover have "p \<noteq> d \<and> p = length h \<and> p < length h' \<and>
        color_years YEARS s (select (h ! d) (conditions (h ! d) s)) = Inr (h' ! p)" if "res = Inr p" for p
  proof -
    from that res have r1: "r1 = None" and p: "p = length h" by (auto split: option.splits)
    have "length h < length h0" by (simp add: h0_def)
    from color_years_st_value [OF this run] r1
    have "color_years YEARS s (h0 ! length h) = Inr (h' ! length h)"
      by (auto split: sum.splits)
    then show ?thesis using assms(1) p len by (simp add: h0_def)
  qed
  ultimately show ?thesis by blast
qed

theorem get_data_st_frame_witness:
  "(0::nat) < length [[\<lparr>unit = ''a'', state = ''X'', is_state = 0, code = ''1'', years = Years (Float 55) (Float (- 65.7)) (Float 10) (Float (- 150)) (Float 150) (Float (- 99))\<rparr>,
       \<lparr>unit = ''X'', state = ''X'', is_state = 1, code = ''2'', years = Years (Float 51.3) (Float 51.3) (Float 51.3) (Float 51.3) (Float 51.3) (Float 51.3)\<rparr>]] \<and>
   get_data_st [[\<lparr>unit = ''a'', state = ''X'', is_state = 0, code = ''1'', years = Years (Float 55) (Float (- 65.7)) (Float 10) (Float (- 150)) (Float 150) (Float (- 99))\<rparr>,
       \<lparr>unit = ''X'', state = ''X'', is_state = 1, code = ''2'', years = Years (Float 51.3) (Float 51.3) (Float 51.3) (Float 51.3) (Float 51.3) (Float 51.3)\<rparr>]] 0 ''X'' =
     (Inr 1,
      [[\<lparr>unit = ''a'', state = ''X'', is_state = 0, code = ''1'', years = Years (Float 55) (Float (- 65.7)) (Float 10) (Float (- 150)) (Float 150) (Float (- 99))\<rparr>,
        \<lparr>unit = ''X'', state = ''X'', is_state = 1, code = ''2'', years = Years (Float 51.3) (Float 51.3) (Float 51.3) (Float 51.3) (Float 51.3) (Float 51.3)\<rparr>],
       [\<lparr>unit = ''a'', state = ''X'', is_state = 0, code = ''1'', years = Years (Str ''#E27F90'') (Str ''#4389E3'') NoneVal NoneVal (Str ''#800000'') (Str ''#002B84'')\<rparr>]])"
  using get_data_st_frame [of 0
     "[[\<lparr>unit = ''a'', state = ''X'', is_state = 0, code = ''1'', years = Years (Float 55) (Float (- 65.7)) (Float 10) (Float (- 150)) (Float 150) (Float (- 99))\<rparr>,
       \<lparr>unit = ''X'', state = ''X'', is_state = 1, code = ''2'', years = Years (Float 51.3) (Float 51.3) (Float 51.3) (Float 51.3) (Float 51.3) (Float 51.3)\<rparr>]]"
     "''X''"]
  by (simp add: get_data_st_def select_def conditions_def YEARS_def column_def assign_st_def
      assign_def grey_column_def grey_out_def get_color_default COLORS_D_def COLORS_R_def Let_def)

section \<open>Properties of the result series\<close>

lemma find_filter: "find P xs = Some r \<Longrightarrow> \<exists>rest. filter P xs = r # rest"
  by (induction xs) (auto split: if_splits)

lemma get_results_filter:
  "get_results data s =
     (case filter (\<lambda>q. unit q = s) data of
        [] \<Rightarrow> Inl IndexError
      | r # _ \<Rightarrow> Inr [d_results (years_list (years r)), r_results (years_list (years r))])"
  unfolding get_results_def select_map by (simp add: Let_def split: list.splits)

lemma length_years_list [simp]: "length (years_list ys) = 6"
  by (cases ys) simp

lemma fl_sum_near_100:
  assumes "\<bar>x\<bar> \<le> 100"
  shows "\<bar>fl x - x\<bar> \<le> 1 / 10 ^ 10"
proof -
  have "\<bar>fl x - x\<bar> \<le> \<bar>x\<bar> / 2 ^ 53" by (rule fl_error)
  also have "\<dots> \<le> 100 / 2 ^ 53" using assms by (simp add: divide_right_mono)
  also have "\<dots> \<le> 1 / 10 ^ 10" by simp
  finally show ?thesis .
qed

lemma fl_near_100:
  assumes "\<bar>s - 100\<bar> \<le> 1 / 10 ^ 10"
  shows "\<bar>fl s - 100\<bar> \<le> 1 / 10 ^ 9"
proof -
  from assms have "\<bar>s\<bar> \<le> 101" by (simp add: abs_if split: if_splits)
  have "\<bar>fl s - s\<bar> \<le> \<bar>s\<bar> / 2 ^ 53" by (rule fl_error)
  also have "\<dots> \<le> 101 / 2 ^ 53" using \<open>\<bar>s\<bar> \<le> 101\<close> by (simp add: divide_right_mono)
  also have "\<dots> \<le> 1 / 10 ^ 10" by simp
  finally have "\<bar>fl s - s\<bar> \<le> 1 / 10 ^ 10" .
  with assms show ?thesis by (simp add: abs_if split: if_splits)
qed

lemma series_entry:
  assumes "\<bar>m\<bar> \<le> 100"
  shows "\<bar>(if m < 0 then \<bar>m\<bar> else fl (100 - m)) + (if m < 0 then fl (100 + m) else m) - 100\<bar>
           \<le> 1 / 10 ^ 10"
proof (cases "m < 0")
  case True
  then have "\<bar>100 + m\<bar> \<le> 100" using assms by simp
  from fl_sum_near_100 [OF this] True show ?thesis by (simp add: abs_if split: if_splits)
next
  case False
  then have "\<bar>100 - m\<bar> \<le> 100" using assms by simp
  from fl_sum_near_100 [OF this] False show ?thesis by (simp add: abs_if split: if_splits)
qed

text \<open>
  C4 (counterexample). The sum is not within \<open>1e-9\<close> of 100 for every margin: for the
  float \<open>1e17\<close> the difference \<open>100 - 1e17\<close> is rounded to \<open>-99999999999999904\<close>, and the
  two series add up to 96, in exact and in float arithmetic.
\<close>

theorem get_results_sum_counterexample:
  "fl (10 ^ 17) = 10 ^ 17 \<and>
   get_results
     [\<lparr>unit = ''X'', state = ''X'', is_state = 1, code = ''1'',
        years = Years (10 ^ 17) (10 ^ 17) (10 ^ 17) (10 ^ 17) (10 ^ 17) (10 ^ 17)\<rparr>] ''X'' =
     Inr [[- 99999999999999904, - 99999999999999904, - 99999999999999904,
           - 99999999999999904, - 99999999999999904, - 99999999999999904],
          [10 ^ 17, 10 ^ 17, 10 ^ 17, 10 ^ 17, 10 ^ 17, 10 ^ 17]] \<and>
   (- 99999999999999904 :: real) + 10 ^ 17 = 96 \<and>
   fl (- 99999999999999904 + 10 ^ 17) = 96 \<and>
   \<not> \<bar>(- 99999999999999904 :: real) + 10 ^ 17 - 100\<bar> \<le> 1 / 10 ^ 9"
  by (simp add: get_results_filter d_results_def r_results_def fl_1e17 fl_100_minus_1e17 fl_96)

text \<open>
  C4 (as amended). When the table has a row whose \<open>unit\<close> is the state, and the margins of
  the first such row are percentages (\<open>|m| <= 100\<close>), \<open>get_results\<close> returns two series of
  six elements, side A being \<open>|m|\<close> for a negative margin and \<open>100 - m\<close> otherwise, side B
  \<open>100 + m\<close> for a negative margin and \<open>m\<close> otherwise, and the two add up to 100 within
  \<open>1e-9\<close>, whether the sum is taken exactly or in float arithmetic.
\<close>

theorem get_results_series:
  assumes "find (\<lambda>q. unit q = s) data = Some r"
    and "\<forall>m\<in>set (years_list (years r)). \<bar>m\<bar> \<le> 100"
  shows "\<exists>a b. get_results data s = Inr [a, b] \<and> length a = 6 \<and> length b = 6 \<and>
           (\<forall>i<6. a ! i = (if years_list (years r) ! i < 0 then \<bar>years_list (years r) ! i\<bar>
                           else fl (100 - years_list (years r) ! i)) \<and>
                  b ! i = (if years_list (years r) ! i < 0 then fl (100 + years_list (years r) ! i)
                           else years_list (years r) ! i) \<and>
                  \<bar>a ! i + b ! i - 100\<bar> \<le> 1 / 10 ^ 9 \<and>
                  \<bar>fl (a ! i + b ! i) - 100\<bar> \<le> 1 / 10 ^ 9)"
proof -
  let ?m = "years_list (years r)"
  from find_filter [OF assms(1)] obtain rest where "filter (\<lambda>q. unit q = s) data = r # rest" ..
  then have res: "get_results data s = Inr [d_results ?m, r_results ?m]"
    by (simp add: get_results_filter)
  have sums: "\<bar>d_results ?m ! i + r_results ?m ! i - 100\<bar> \<le> 1 / 10 ^ 9 \<and>
              \<bar>fl (d_results ?m ! i + r_results ?m ! i) - 100\<bar> \<le> 1 / 10 ^ 9"
    if "i < 6" for i
  proof -
    from that have "?m ! i \<in> set ?m" by simp
    with assms(2) have "\<bar>?m ! i\<bar> \<le> 100" by blast
    from series_entry [OF this] that
    have near: "\<bar>d_results ?m ! i + r_results ?m ! i - 100\<bar> \<le> 1 / 10 ^ 10"
      by (simp add: d_results_def r_results_def)
    have "(1::real) / 10 ^ 10 \<le> 1 / 10 ^ 9" by simp
    with near have "\<bar>d_results ?m ! i + r_results ?m ! i - 100\<bar> \<le> 1 / 10 ^ 9"
      by (rule order_trans)
    with fl_near_100 [OF near] show ?thesis by blast
  qed
  have entries: "d_results ?m ! i = (if ?m ! i < 0 then \<bar>?m ! i\<bar> else fl (100 - ?m ! i)) \<and>
                 r_results ?m ! i = (if ?m ! i < 0 then fl (100 + ?m ! i) else ?m ! i)"
    if "i < 6" for i
    using that by (simp add: d_results_def r_results_def)
  have "length (d_results ?m) = 6" "length (r_results ?m) = 6"
    by (simp_all add: d_results_def r_results_def)
  with res sums entries show ?thesis by blast
qed

theorem get_results_series_witness:
  "find (\<lambda>q. unit q = ''X'')
     [\<lparr>unit = ''Y'', state = ''Y'', is_state = 1, code = ''2'', years = Years 51.3 52 53 54 55 (56 :: real)\<rparr>,
      \<lparr>unit = ''X'', state = ''X'', is_state = 1, code = ''1'', years = Years (- 65.7) 100 0 (- 100) 12.5 (- 3)\<rparr>] =
     Some \<lparr>unit = ''X'', state = ''X'', is_state = 1, code = ''1'', years = Years (- 65.7) 100 0 (- 100) 12.5 (- 3)\<rparr> \<and>
   \<bar>- 65.7 :: real\<bar> \<le> 100 \<and> \<bar>100 :: real\<bar> \<le> 100 \<and> \<bar>0 :: real\<bar> \<le> 100 \<and>
   \<bar>- 100 :: real\<bar> \<le> 100 \<and> \<bar>12.5 :: real\<bar> \<le> 100 \<and> \<bar>- 3 :: real\<bar> \<le> 100 \<and>
   (\<exists>a b. get_results
       [\<lparr>unit = ''Y'', state = ''Y'', is_state = 1, code = ''2'', years = Years 51.3 52 53 54 55 56\<rparr>,
        \<lparr>unit = ''X'', state = ''X'', is_state = 1, code = ''1'', years = Years (- 65.7) 100 0 (- 100) 12.5 (- 3)\<rparr>] ''X'' = Inr [a, b] \<and>
      length a = 6 \<and> length b = 6 \<and>
      \<bar>a ! 0 + b ! 0 - 100\<bar> \<le> 1 / 10 ^ 9 \<and> \<bar>fl (a ! 0 + b ! 0) - 100\<bar> \<le> 1 / 10 ^ 9 \<and>
      \<bar>a ! 5 + b ! 5 - 100\<bar> \<le> 1 / 10 ^ 9 \<and> \<bar>fl (a ! 5 + b ! 5) - 100\<bar> \<le> 1 / 10 ^ 9)"
proof -
  let ?r = "\<lparr>unit = ''X'', state = ''X'', is_state = 1, code = ''1'',
             years = Years (- 65.7) 100 0 (- 100) 12.5 (- 3 :: real)\<rparr>"
  let ?T = "[\<lparr>unit = ''Y'', state = ''Y'', is_state = 1, code = ''2'',
               years = Years 51.3 52 53 54 55 (56 :: real)\<rparr>, ?r]"
  have f: "find (\<lambda>q. unit q = ''X'') ?T = Some ?r" by simp
  have m: "\<forall>m\<in>set (years_list (years ?r)). \<bar>m\<bar> \<le> 100" by simp
  from get_results_series [OF f m] obtain a b
    where res: "get_results ?T ''X'' = Inr [a, b]" "length a = 6" "length b = 6"
      and sums: "\<And>i. i < 6 \<Longrightarrow> \<bar>a ! i + b ! i - 100\<bar> \<le> 1 / 10 ^ 9 \<and>
                              \<bar>fl (a ! i + b ! i) - 100\<bar> \<le> 1 / 10 ^ 9"
    by blast
  have "\<bar>a ! 0 + b ! 0 - 100\<bar> \<le> 1 / 10 ^ 9 \<and> \<bar>fl (a ! 0 + b ! 0) - 100\<bar> \<le> 1 / 10 ^ 9"
    by (rule sums) simp
  moreover have "\<bar>a ! 5 + b ! 5 - 100\<bar> \<le> 1 / 10 ^ 9 \<and> \<bar>fl (a ! 5 + b ! 5) - 100\<bar> \<le> 1 / 10 ^ 9"
    by (rule sums) simp
  ultimately have "\<exists>a b. get_results ?T ''X'' = Inr [a, b] \<and> length a = 6 \<and> length b = 6 \<and>
      \<bar>a ! 0 + b ! 0 - 100\<bar> \<le> 1 / 10 ^ 9 \<and> \<bar>fl (a ! 0 + b ! 0) - 100\<bar> \<le> 1 / 10 ^ 9 \<and>
      \<bar>a ! 5 + b ! 5 - 100\<bar> \<le> 1 / 10 ^ 9 \<and> \<bar>fl (a ! 5 + b ! 5) - 100\<bar> \<le> 1 / 10 ^ 9"
    using res by blast
  moreover have "\<bar>- 65.7 :: real\<bar> \<le> 100 \<and> \<bar>100 :: real\<bar> \<le> 100 \<and> \<bar>0 :: real\<bar> \<le> 100 \<and>
      \<bar>- 100 :: real\<bar> \<le> 100 \<and> \<bar>12.5 :: real\<bar> \<le> 100 \<and> \<bar>- 3 :: real\<bar> \<le> 100"
    by simp
  ultimately show ?thesis using f by blast
qed

text \<open>
  \<open>get_results\<close> takes the last six entries of the row, one for each year column, so each
  of the two series it returns has six elements: a series of one element is never
  returned.
\<close>

lemma get_results_six:
  "get_results data s = Inr out \<Longrightarrow> \<exists>a b. out = [a, b] \<and> length a = 6 \<and> length b = 6"
  by (auto simp: get_results_filter d_results_def r_results_def split: list.splits)

lemma get_results_never_singleton: "get_results data s \<noteq> Inr [[x], [y]]"
proof
  assume "get_results data s = Inr [[x], [y]]"
  from get_results_six [OF this] show False by simp
qed

text \<open>
  C8 (counterexample). In the table of the two states X and Y whose aggregate rows have
  the margins \<open>-65.7\<close> and \<open>51.3\<close>, the extractor does not yield the one-element series
  \<open>sideA=[65.7]\<close>, \<open>sideB=[34.3]\<close> for X, nor \<open>sideA=[48.7]\<close>, \<open>sideB=[51.3]\<close> for Y: it yields
  series of six elements.
\<close>

theorem end_to_end_scenario_counterexample:
  "get_results
     [\<lparr>unit = ''X'', state = ''X'', is_state = 1, code = ''1'',
        years = Years (fl (- 65.7)) (fl (- 65.7)) (fl (- 65.7)) (fl (- 65.7)) (fl (- 65.7)) (fl (- 65.7))\<rparr>,
      \<lparr>unit = ''Y'', state = ''Y'', is_state = 1, code = ''2'',
        years = Years (fl 51.3) (fl 51.3) (fl 51.3) (fl 51.3) (fl 51.3) (fl 51.3)\<rparr>] ''X'' \<noteq>
     Inr [[fl 65.7], [fl 34.3]] \<and>
   get_results
     [\<lparr>unit = ''X'', state = ''X'', is_state = 1, code = ''1'',
        years = Years (fl (- 65.7)) (fl (- 65.7)) (fl (- 65.7)) (fl (- 65.7)) (fl (- 65.7)) (fl (- 65.7))\<rparr>,
      \<lparr>unit = ''Y'', state = ''Y'', is_state = 1, code = ''2'',
        years = Years (fl 51.3) (fl 51.3) (fl 51.3) (fl 51.3) (fl 51.3) (fl 51.3)\<rparr>] ''Y'' \<noteq>
     Inr [[fl 48.7], [fl 51.3]]"
  by (simp add: get_results_filter d_results_def r_results_def)

text \<open>
  C8 (as amended). Every literal standing for the float it denotes: \<open>get_color(-65.7)\<close> is
  \<open>#4389E3\<close> and \<open>get_color(51.3)\<close> is \<open>#E27F90\<close>; in the table of the two states X and Y
  whose aggregate rows have the margin \<open>-65.7\<close>, respectively \<open>51.3\<close>, in each of the six
  year columns, the extractor yields for X side A six times \<open>65.7\<close> and side B six times
  \<open>34.3\<close>, and for Y side A six times \<open>48.7\<close> and side B six times \<open>51.3\<close>.
\<close>

theorem end_to_end_scenario:
  "get_color (fl (- 65.7)) THRESH_MARGIN = Inr (Some ''#4389E3'') \<and>
   get_color (fl 51.3) THRESH_MARGIN = Inr (Some ''#E27F90'') \<and>
   get_results
     [\<lparr>unit = ''X'', state = ''X'', is_state = 1, code = ''1'',
        years = Years (fl (- 65.7)) (fl (- 65.7)) (fl (- 65.7)) (fl (- 65.7)) (fl (- 65.7)) (fl (- 65.7))\<rparr>,
      \<lparr>unit = ''Y'', state = ''Y'', is_state = 1, code = ''2'',
        years = Years (fl 51.3) (fl 51.3) (fl 51.3) (fl 51.3) (fl 51.3) (fl 51.3)\<rparr>] ''X'' =
     Inr [[fl 65.7, fl 65.7, fl 65.7, fl 65.7, fl 65.7, fl 65.7],
          [fl 34.3, fl 34.3, fl 34.3, fl 34.3, fl 34.3, fl 34.3]] \<and>
   get_results
     [\<lparr>unit = ''X'', state = ''X'', is_state = 1, code = ''1'',
        years = Years (fl (- 65.7)) (fl (- 65.7)) (fl (- 65.7)) (fl (- 65.7)) (fl (- 65.7)) (fl (- 65.7))\<rparr>,
      \<lparr>unit = ''Y'', state = ''Y'', is_state = 1, code = ''2'',
        years = Years (fl 51.3) (fl 51.3) (fl 51.3) (fl 51.3) (fl 51.3) (fl 51.3)\<rparr>] ''Y'' =
     Inr [[fl 48.7, fl 48.7, fl 48.7, fl 48.7, fl 48.7, fl 48.7],
          [fl 51.3, fl 51.3, fl 51.3, fl 51.3, fl 51.3, fl 51.3]]"
  by (simp add: fl_binade5 fl_binade6 rne_def get_color_default COLORS_D_def COLORS_R_def
      d_results_def r_results_def get_results_filter)

text \<open>
  C10. When no row of the table has \<open>unit\<close> equal to the state, \<open>get_results\<close> raises
  IndexError; when several have, the series are those of the first such row in table
  order.
\<close>

theorem get_results_first_match:
  "((\<forall>q\<in>set data. unit q \<noteq> s) \<longrightarrow> get_results data s = Inl IndexError) \<and>
   ((\<forall>q\<in>set pre. unit q \<noteq> s) \<and> unit r = s \<longrightarrow>
      get_results (pre @ r # post) s =
        Inr [d_results (years_list (years r)), r_results (years_list (years r))])"
proof -
  have "filter (\<lambda>q. unit q = s) data = []" if "\<forall>q\<in>set data. unit q \<noteq> s"
    using that by (simp add: filter_empty_conv)
  moreover have "filter (\<lambda>q. unit q = s) (pre @ r # post) = r # filter (\<lambda>q. unit q = s) post"
    if "\<forall>q\<in>set pre. unit q \<noteq> s" "unit r = s"
    using that by (simp add: filter_empty_conv)
  ultimately show ?thesis
    by (simp add: get_results_filter)
qed

theorem get_results_first_match_witness:
  "unit \<lparr>unit = ''Y'', state = ''Y'', is_state = 1, code = ''2'', years = Years 1 2 3 4 5 (6::real)\<rparr> \<noteq> ''X'' \<and>
   get_results [\<lparr>unit = ''Y'', state = ''Y'', is_state = 1, code = ''2'', years = Years 1 2 3 4 5 6\<rparr>] ''X'' = Inl IndexError \<and>
   unit \<lparr>unit = ''X'', state = ''X'', is_state = 1, code = ''1'', years = Years (- 1) (- 2) (- 3) (- 4) (- 5) (- 6 :: real)\<rparr> = ''X'' \<and>
   get_results
     ([\<lparr>unit = ''Y'', state = ''Y'', is_state = 1, code = ''2'', years = Years 1 2 3 4 5 6\<rparr>] @
      \<lparr>unit = ''X'', state = ''X'', is_state = 1, code = ''1'', years = Years (- 1) (- 2) (- 3) (- 4) (- 5) (- 6)\<rparr> #
      [\<lparr>unit = ''X'', state = ''Z'', is_state = 0, code = ''3'', years = Years 7 7 7 7 7 7\<rparr>]) ''X'' =
     Inr [d_results [- 1, - 2, - 3, - 4, - 5, - 6], r_results [- 1, - 2, - 3, - 4, - 5, - 6]]"
  using get_results_first_match [of
      "[\<lparr>unit = ''Y'', state = ''Y'', is_state = 1, code = ''2'', years = Years 1 2 3 4 5 6\<rparr>]" "''X''"
      "[\<lparr>unit = ''Y'', state = ''Y'', is_state = 1, code = ''2'', years = Years 1 2 3 4 5 6\<rparr>]"
      "\<lparr>unit = ''X'', state = ''X'', is_state = 1, code = ''1'', years = Years (- 1) (- 2) (- 3) (- 4) (- 5) (- 6)\<rparr>"
      "[\<lparr>unit = ''X'', state = ''Z'', is_state = 0, code = ''3'', years = Years 7 7 7 7 7 7\<rparr>]"]
  by simp

end
